theory Spec2Isabelle
  imports Complex_Main "HOL-Library.Word"
begin

section \<open>Conventions of the embedding\<close>

text \<open>
  The engine is C++. A \<^verbatim>\<open>float\<close> is idealised as a \<^typ>\<open>real\<close>: a \<^verbatim>\<open>float\<close> argument is a
  real that a float holds, and infinities and NaN are outside the model, except where the
  source tests for NaN explicitly (the argument of \<^verbatim>\<open>triggerNoteOff\<close>), where the argument
  is a \<^typ>\<open>real option\<close> and \<open>None\<close> is NaN. The rounding of float arithmetic is left out
  where the result stays a sample or a parameter; where a float product is converted to
  an integer (the buffer length and the delay in samples of the delay effect), the
  product is rounded to single precision first, as the hardware does, and the constant
  \<^verbatim>\<open>0.005f\<close> that can enter such a product is the float it denotes.
  A \<^verbatim>\<open>std::size_t\<close> is a \<^typ>\<open>nat\<close>; it is 64 bits wide on the target (Linux), and the
  wrap-around is written out (\<open>mod 2 ^ 64\<close>) at the two places of the ring buffer where a
  value is not bounded by the length of an allocated vector: the product in the constructor
  and the counter of frames written. Random draws are arguments of the operation that
  draws them.
\<close>

type_synonym sample = real

definition SIZE_MOD :: nat where
  "SIZE_MOD = 2 ^ 64"

text \<open>
  Rounding to single precision (IEEE 754 binary32, round to nearest, ties to even): a
  value with binary exponent \<open>e\<close> is rounded to a multiple of \<open>2 ^ (e - 23)\<close>; below the
  smallest normal exponent -126 the spacing stays \<open>2 ^ (-149)\<close>. Overflow to infinity is
  not modelled: the products below overflow only at sample rates whose buffers cannot be
  allocated.
\<close>

definition round_half_even :: "real \<Rightarrow> int" where
  "round_half_even r =
     (let f = \<lfloor>r\<rfloor>; d = r - of_int f
      in if d < 1 / 2 then f else if d > 1 / 2 then f + 1 else if even f then f else f + 1)"

definition pow2 :: "int \<Rightarrow> real" where
  "pow2 k = (if 0 \<le> k then 2 ^ nat k else 1 / 2 ^ nat (- k))"

definition f32_exponent :: "real \<Rightarrow> int" where
  "f32_exponent x = max \<lfloor>log 2 \<bar>x\<bar>\<rfloor> (- 126)"

definition f32 :: "real \<Rightarrow> real" where
  "f32 x =
     (if x = 0 then 0
      else (let ulp = pow2 (f32_exponent x - 23)
            in of_int (round_half_even (x / ulp)) * ulp))"

section \<open>StereoSampleRingBuffer (Core/StereoSampleRingBuffer.h)\<close>

record StereoSampleRingBuffer =
  rb_capacityFrames :: nat
  rb_buffer :: "sample list"
  rb_writeIndex :: nat
  rb_totalFramesWritten :: nat

definition StereoSampleRingBuffer_new :: "nat \<Rightarrow> StereoSampleRingBuffer" where
  "StereoSampleRingBuffer_new capacityFrames =
     (let c = max 1 capacityFrames in
      \<lparr> rb_capacityFrames = c,
        rb_buffer = replicate ((c * 2) mod SIZE_MOD) 0,
        rb_writeIndex = 0,
        rb_totalFramesWritten = 0 \<rparr>)"

definition capacityFrames :: "StereoSampleRingBuffer \<Rightarrow> nat" where
  "capacityFrames rb = rb_capacityFrames rb"

definition push :: "sample \<Rightarrow> sample \<Rightarrow> StereoSampleRingBuffer \<Rightarrow> StereoSampleRingBuffer" where
  "push left right rb =
     (let frameIndex = rb_writeIndex rb;
          sampleIndex = frameIndex * 2;
          buf = ((rb_buffer rb)[sampleIndex := left])[sampleIndex + 1 := right];
          frameIndex1 = frameIndex + 1;
          frameIndex2 = (if frameIndex1 \<ge> rb_capacityFrames rb then 0 else frameIndex1)
      in rb\<lparr> rb_buffer := buf,
             rb_writeIndex := frameIndex2,
             rb_totalFramesWritten := (rb_totalFramesWritten rb + 1) mod SIZE_MOD \<rparr>)"

definition availableFrames :: "StereoSampleRingBuffer \<Rightarrow> nat" where
  "availableFrames rb = min (rb_totalFramesWritten rb) (rb_capacityFrames rb)"

text \<open>The copy loop of \<^verbatim>\<open>copyLatestInterleaved\<close>, from frame \<open>i\<close> on.\<close>

function copy_frames ::
  "StereoSampleRingBuffer \<Rightarrow> nat \<Rightarrow> nat \<Rightarrow> nat \<Rightarrow> sample list \<Rightarrow> sample list" where
  "copy_frames rb startFrame framesToCopy i dest =
     (if i < framesToCopy then
        (let frameIndex0 = startFrame + i;
             frameIndex = (if frameIndex0 \<ge> rb_capacityFrames rb
                           then frameIndex0 - rb_capacityFrames rb else frameIndex0);
             sampleIndex = frameIndex * 2;
             dest1 = dest[i * 2 := rb_buffer rb ! sampleIndex];
             dest2 = dest1[i * 2 + 1 := rb_buffer rb ! (sampleIndex + 1)]
         in copy_frames rb startFrame framesToCopy (i + 1) dest2)
      else dest)"
  by pat_completeness auto
termination
  by (relation "measure (\<lambda>(rb, startFrame, framesToCopy, i, dest). framesToCopy - i)") auto

declare copy_frames.simps [simp del]

text \<open>
  \<^verbatim>\<open>copyLatestInterleaved(dest, maxFrames)\<close>: \<open>None\<close> is the null pointer; the result is the
  number of frames copied and the destination after the call.
\<close>

definition copyLatestInterleaved ::
  "StereoSampleRingBuffer \<Rightarrow> sample list option \<Rightarrow> nat \<Rightarrow> nat \<times> sample list option" where
  "copyLatestInterleaved rb dest maxFrames =
     (case dest of
        None \<Rightarrow> (0, None)
      | Some d \<Rightarrow>
          if maxFrames = 0 then (0, Some d)
          else
            (let available = availableFrames rb;
                 framesToCopy = min maxFrames available
             in if framesToCopy = 0 then (0, Some d)
                else
                  (let writeIndex = rb_writeIndex rb;
                       startFrame0 = writeIndex + rb_capacityFrames rb - framesToCopy;
                       startFrame = (if startFrame0 \<ge> rb_capacityFrames rb
                                     then startFrame0 mod rb_capacityFrames rb else startFrame0)
                   in (framesToCopy, Some (copy_frames rb startFrame framesToCopy 0 d)))))"

text \<open>A sequence of \<^verbatim>\<open>push(left, right)\<close> calls, oldest first.\<close>

fun push_all :: "(sample \<times> sample) list \<Rightarrow> StereoSampleRingBuffer \<Rightarrow> StereoSampleRingBuffer" where
  "push_all [] rb = rb"
| "push_all ((l, r) # ps) rb = push_all ps (push l r rb)"

text \<open>The interleaved L/R layout of a list of frames.\<close>

fun interleave :: "(sample \<times> sample) list \<Rightarrow> sample list" where
  "interleave [] = []"
| "interleave ((l, r) # ps) = l # r # interleave ps"

section \<open>DelayEffect (Effects/DelayEffect.h, Effects/DelayEffect.cpp)\<close>

text \<open>
  The indices of the delay line are bounded by the length of its vectors, so that no sum
  below reaches \<open>2 ^ 64\<close>; where the class invariant holds (\<open>m_delaySamples\<close> below the
  length), the subtraction of \<^verbatim>\<open>process\<close> does not go below zero either.
\<close>

record DelayEffect =
  dl_bufferLeft :: "sample list"
  dl_bufferRight :: "sample list"
  dl_writeIndex :: nat
  dl_delaySamples :: nat
  dl_delayTime :: real
  dl_feedback :: real
  dl_mix :: real
  dl_sampleRate :: real

text \<open>\<^verbatim>\<open>kMinDelaySeconds = 0.005f\<close>: the float nearest to 0.005, which is 5368709 / 2 ^ 30.\<close>

definition kMinDelaySeconds :: real where
  "kMinDelaySeconds = f32 0.005"

definition kMaxDelaySeconds :: real where
  "kMaxDelaySeconds = 2.5"

definition kMaxFeedback :: real where
  "kMaxFeedback = 0.97"

text \<open>The template \<^verbatim>\<open>clampValue\<close> of DelayEffect.cpp (and the static one of LowPassEffect).\<close>

definition clampValue :: "'a::linorder \<Rightarrow> 'a \<Rightarrow> 'a \<Rightarrow> 'a" where
  "clampValue v low high = (if v < low then low else if v > high then high else v)"

text \<open>\<^verbatim>\<open>std::round\<close>: to the nearest integer, halfway cases away from zero.\<close>

definition c_round :: "real \<Rightarrow> int" where
  "c_round x = (if 0 \<le> x then \<lfloor>x + 1 / 2\<rfloor> else \<lceil>x - 1 / 2\<rceil>)"

text \<open>
  \<^verbatim>\<open>static_cast<std::size_t>\<close> of an integral float value. The cast of a negative value is
  undefined in C++; the engine only casts values that are at least zero.
\<close>

definition to_size_t :: "int \<Rightarrow> nat" where
  "to_size_t v = nat v"

definition bufferLength :: "DelayEffect \<Rightarrow> nat" where
  "bufferLength d = length (dl_bufferLeft d)"

definition allocateBuffers :: "DelayEffect \<Rightarrow> DelayEffect" where
  "allocateBuffers d =
     (let requiredSamples = to_size_t \<lceil>f32 (kMaxDelaySeconds * dl_sampleRate d)\<rceil> + 1;
          targetSize = max requiredSamples 2;
          d1 = (if targetSize \<noteq> bufferLength d
                then d\<lparr> dl_bufferLeft := replicate targetSize 0,
                        dl_bufferRight := replicate targetSize 0 \<rparr>
                else d);
          d2 = (if dl_writeIndex d1 \<ge> targetSize then d1\<lparr> dl_writeIndex := 0 \<rparr> else d1)
      in (if dl_delaySamples d2 \<ge> targetSize
          then d2\<lparr> dl_delaySamples := targetSize - 1 \<rparr> else d2))"

definition updateDelaySamples :: "DelayEffect \<Rightarrow> DelayEffect" where
  "updateDelaySamples d =
     (let len = bufferLength d in
      if len = 0 then d
      else
        (let samples = to_size_t (c_round (f32 (dl_delayTime d * dl_sampleRate d)))
         in d\<lparr> dl_delaySamples := clampValue samples 1 (len - 1) \<rparr>))"

definition delay_reset :: "DelayEffect \<Rightarrow> DelayEffect" where
  "delay_reset d =
     d\<lparr> dl_bufferLeft := replicate (length (dl_bufferLeft d)) 0,
        dl_bufferRight := replicate (length (dl_bufferRight d)) 0,
        dl_writeIndex := 0 \<rparr>"

definition DelayEffect_new :: "real \<Rightarrow> real \<Rightarrow> real \<Rightarrow> real \<Rightarrow> DelayEffect" where
  "DelayEffect_new delayTime feedback mix sampleRate =
     delay_reset (updateDelaySamples (allocateBuffers
       \<lparr> dl_bufferLeft = [],
         dl_bufferRight = [],
         dl_writeIndex = 0,
         dl_delaySamples = 1,
         dl_delayTime = clampValue delayTime kMinDelaySeconds kMaxDelaySeconds,
         dl_feedback = clampValue feedback 0 kMaxFeedback,
         dl_mix = clampValue mix 0 1,
         dl_sampleRate = max sampleRate 100 \<rparr>))"

text \<open>\<^verbatim>\<open>process\<close>: the output pair and the effect after the call.\<close>

definition delay_process :: "DelayEffect \<Rightarrow> sample \<times> sample \<Rightarrow> (sample \<times> sample) \<times> DelayEffect" where
  "delay_process d stereoSample =
     (let len = bufferLength d in
      if len = 0 then (stereoSample, d)
      else
        (let readIndex = (dl_writeIndex d + len - dl_delaySamples d) mod len;
             delayedLeft = dl_bufferLeft d ! readIndex;
             delayedRight = dl_bufferRight d ! readIndex;
             feedbackLeft = fst stereoSample + delayedLeft * dl_feedback d;
             feedbackRight = snd stereoSample + delayedRight * dl_feedback d;
             bufL = (dl_bufferLeft d)[dl_writeIndex d := clampValue feedbackLeft (- 2) 2];
             bufR = (dl_bufferRight d)[dl_writeIndex d := clampValue feedbackRight (- 2) 2];
             dryCoeff = 1 - dl_mix d;
             wetCoeff = dl_mix d;
             outLeft = dryCoeff * fst stereoSample + wetCoeff * delayedLeft;
             outRight = dryCoeff * snd stereoSample + wetCoeff * delayedRight
         in ((outLeft, outRight),
             d\<lparr> dl_bufferLeft := bufL,
                dl_bufferRight := bufR,
                dl_writeIndex := (dl_writeIndex d + 1) mod len \<rparr>)))"

definition delay_setSampleRate :: "DelayEffect \<Rightarrow> real \<Rightarrow> DelayEffect" where
  "delay_setSampleRate d sampleRate =
     (if sampleRate \<le> 100 then d
      else if \<bar>sampleRate - dl_sampleRate d\<bar> < 1 / 1000 then d
      else updateDelaySamples (allocateBuffers (d\<lparr> dl_sampleRate := sampleRate \<rparr>)))"

definition setDelayTime :: "DelayEffect \<Rightarrow> real \<Rightarrow> DelayEffect" where
  "setDelayTime d delayTime =
     (let clamped = clampValue delayTime kMinDelaySeconds kMaxDelaySeconds in
      if \<bar>clamped - dl_delayTime d\<bar> < 1 / 1000000 then d
      else updateDelaySamples (d\<lparr> dl_delayTime := clamped \<rparr>))"

definition setFeedback :: "DelayEffect \<Rightarrow> real \<Rightarrow> DelayEffect" where
  "setFeedback d feedback = d\<lparr> dl_feedback := clampValue feedback 0 kMaxFeedback \<rparr>"

definition delay_setMix :: "DelayEffect \<Rightarrow> real \<Rightarrow> DelayEffect" where
  "delay_setMix d mix = d\<lparr> dl_mix := clampValue mix 0 1 \<rparr>"

text \<open>The operations a client can apply to a constructed delay effect, and a run of them.\<close>

datatype DelayOp =
    OpProcess sample sample
  | OpReset
  | OpSetDelayTime real
  | OpSetFeedback real
  | OpSetMix real
  | OpSetSampleRate real

fun delay_apply :: "DelayEffect \<Rightarrow> DelayOp \<Rightarrow> DelayEffect" where
  "delay_apply d (OpProcess l r) = snd (delay_process d (l, r))"
| "delay_apply d OpReset = delay_reset d"
| "delay_apply d (OpSetDelayTime t) = setDelayTime d t"
| "delay_apply d (OpSetFeedback g) = setFeedback d g"
| "delay_apply d (OpSetMix m) = delay_setMix d m"
| "delay_apply d (OpSetSampleRate sr) = delay_setSampleRate d sr"

fun delay_run :: "DelayEffect \<Rightarrow> DelayOp list \<Rightarrow> DelayEffect" where
  "delay_run d [] = d"
| "delay_run d (x # xs) = delay_run (delay_apply d x) xs"

text \<open>The invariant of the data model: both buffers of one length of at least 2, the write
  index inside them, the delay between 1 and the length minus 1.\<close>

definition delay_inv :: "DelayEffect \<Rightarrow> bool" where
  "delay_inv d =
     (2 \<le> bufferLength d \<and> length (dl_bufferRight d) = bufferLength d
      \<and> dl_writeIndex d < bufferLength d
      \<and> 1 \<le> dl_delaySamples d \<and> dl_delaySamples d \<le> bufferLength d - 1)"

text \<open>The delay in samples is the rounded float product of delay time and sample rate, clamped.\<close>

definition delay_synced :: "DelayEffect \<Rightarrow> bool" where
  "delay_synced d =
     (dl_delaySamples d =
        clampValue (to_size_t (c_round (f32 (dl_delayTime d * dl_sampleRate d)))) 1
          (bufferLength d - 1))"

section \<open>LowPassEffect (Effects/LowPassEffect.h, Effects/LowPassEffect.cpp)\<close>

record FilterState =
  fs_z1 :: real
  fs_z2 :: real

record LowPassEffect =
  lp_cutoff :: real
  lp_sampleRate :: real
  lp_q :: real
  lp_mix :: real
  lp_b0 :: real
  lp_b1 :: real
  lp_b2 :: real
  lp_a1 :: real
  lp_a2 :: real
  lp_leftState :: FilterState
  lp_rightState :: FilterState

definition kMinCutoff :: real where
  "kMinCutoff = 20"

definition kMaxCutoffRatio :: real where
  "kMaxCutoffRatio = 0.45"

definition kMinSampleRate :: real where
  "kMinSampleRate = 100"

definition kMinQ :: real where
  "kMinQ = 0.1"

definition kMaxQ :: real where
  "kMaxQ = 10"

definition kMixMin :: real where
  "kMixMin = 0"

definition kMixMax :: real where
  "kMixMax = 1"

definition updateCoefficients :: "LowPassEffect \<Rightarrow> LowPassEffect" where
  "updateCoefficients f =
     (let nyquist = lp_sampleRate f * 0.5 in
      if nyquist \<le> kMinCutoff
      then f\<lparr> lp_b0 := 1, lp_b1 := 0, lp_b2 := 0, lp_a1 := 0, lp_a2 := 0 \<rparr>
      else
        (let maxCutoff = nyquist * kMaxCutoffRatio;
             cutoff = clampValue (lp_cutoff f) kMinCutoff (max maxCutoff kMinCutoff);
             omega = 2 * pi * cutoff / lp_sampleRate f;
             sinw = sin omega;
             cosw = cos omega;
             alpha = sinw / (2 * lp_q f);
             b0 = (1 - cosw) * 0.5;
             b1 = 1 - cosw;
             b2 = (1 - cosw) * 0.5;
             a0 = 1 + alpha;
             a1 = - 2 * cosw;
             a2 = 1 - alpha;
             invA0 = 1 / a0
         in f\<lparr> lp_b0 := b0 * invA0, lp_b1 := b1 * invA0, lp_b2 := b2 * invA0,
                lp_a1 := a1 * invA0, lp_a2 := a2 * invA0 \<rparr>))"

definition setCutoff :: "LowPassEffect \<Rightarrow> real \<Rightarrow> LowPassEffect" where
  "setCutoff f cutoff =
     (let maxCutoff = (lp_sampleRate f * 0.5) * kMaxCutoffRatio;
          clamped = clampValue cutoff kMinCutoff (max maxCutoff kMinCutoff)
      in if \<bar>clamped - lp_cutoff f\<bar> < 1 / 1000 then f
         else updateCoefficients (f\<lparr> lp_cutoff := clamped \<rparr>))"

definition setResonance :: "LowPassEffect \<Rightarrow> real \<Rightarrow> LowPassEffect" where
  "setResonance f resonance =
     (let clamped = clampValue resonance kMinQ kMaxQ
      in if \<bar>clamped - lp_q f\<bar> < 1 / 1000 then f
         else updateCoefficients (f\<lparr> lp_q := clamped \<rparr>))"

definition lowpass_setMix :: "LowPassEffect \<Rightarrow> real \<Rightarrow> LowPassEffect" where
  "lowpass_setMix f mix = f\<lparr> lp_mix := clampValue mix kMixMin kMixMax \<rparr>"

definition lowpass_setSampleRate :: "LowPassEffect \<Rightarrow> real \<Rightarrow> LowPassEffect" where
  "lowpass_setSampleRate f sampleRate =
     (let clampedRate = max sampleRate kMinSampleRate
      in if \<bar>clampedRate - lp_sampleRate f\<bar> < 1 / 1000 then f
         else
           (let f1 = f\<lparr> lp_sampleRate := clampedRate \<rparr>;
                f2 = f1\<lparr> lp_cutoff :=
                       clampValue (lp_cutoff f1) kMinCutoff
                         ((lp_sampleRate f1 * 0.5) * kMaxCutoffRatio) \<rparr>
            in updateCoefficients f2))"

definition lowpass_reset :: "LowPassEffect \<Rightarrow> LowPassEffect" where
  "lowpass_reset f =
     f\<lparr> lp_leftState := \<lparr> fs_z1 = 0, fs_z2 = 0 \<rparr>,
        lp_rightState := \<lparr> fs_z1 = 0, fs_z2 = 0 \<rparr> \<rparr>"

definition LowPassEffect_new :: "real \<Rightarrow> real \<Rightarrow> real \<Rightarrow> real \<Rightarrow> LowPassEffect" where
  "LowPassEffect_new cutoff sampleRate resonance mix =
     setCutoff
       \<lparr> lp_cutoff = kMinCutoff,
         lp_sampleRate = max sampleRate kMinSampleRate,
         lp_q = clampValue resonance kMinQ kMaxQ,
         lp_mix = clampValue mix kMixMin kMixMax,
         lp_b0 = 0, lp_b1 = 0, lp_b2 = 0, lp_a1 = 0, lp_a2 = 0,
         lp_leftState = \<lparr> fs_z1 = 0, fs_z2 = 0 \<rparr>,
         lp_rightState = \<lparr> fs_z1 = 0, fs_z2 = 0 \<rparr> \<rparr>
       cutoff"

text \<open>One channel of \<^verbatim>\<open>process\<close>: the output, the wet signal and the new filter memory.\<close>

definition lowpass_channel :: "LowPassEffect \<Rightarrow> FilterState \<Rightarrow> sample \<Rightarrow> sample \<times> sample \<times> FilterState" where
  "lowpass_channel f st dry =
     (let wet = lp_b0 f * dry + fs_z1 st;
          z1 = lp_b1 f * dry + fs_z2 st - lp_a1 f * wet;
          z2 = lp_b2 f * dry - lp_a2 f * wet;
          out = (1 - lp_mix f) * dry + lp_mix f * wet
      in (out, wet, \<lparr> fs_z1 = z1, fs_z2 = z2 \<rparr>))"

definition lowpass_process :: "LowPassEffect \<Rightarrow> sample \<times> sample \<Rightarrow> (sample \<times> sample) \<times> LowPassEffect" where
  "lowpass_process f stereoSample =
     (let (outLeft, wetLeft, stL) = lowpass_channel f (lp_leftState f) (fst stereoSample);
          (outRight, wetRight, stR) = lowpass_channel f (lp_rightState f) (snd stereoSample)
      in ((outLeft, outRight), f\<lparr> lp_leftState := stL, lp_rightState := stR \<rparr>))"

text \<open>The pass-through coefficients of the guard in \<^verbatim>\<open>updateCoefficients\<close>.\<close>

definition pass_through :: "LowPassEffect \<Rightarrow> bool" where
  "pass_through f =
     (lp_b0 f = 1 \<and> lp_b1 f = 0 \<and> lp_b2 f = 0 \<and> lp_a1 f = 0 \<and> lp_a2 f = 0)"

text \<open>The range of the data model for the stored cutoff.\<close>

definition cutoff_in_range :: "LowPassEffect \<Rightarrow> bool" where
  "cutoff_in_range f =
     (kMinCutoff \<le> lp_cutoff f \<and> lp_cutoff f \<le> kMaxCutoffRatio * (lp_sampleRate f / 2))"

text \<open>The operations a client can apply to a constructed low-pass effect, and a run of them.\<close>

datatype LowPassOp =
    LpProcess sample sample
  | LpReset
  | LpSetSampleRate real
  | LpSetCutoff real
  | LpSetResonance real
  | LpSetMix real

fun lowpass_apply :: "LowPassEffect \<Rightarrow> LowPassOp \<Rightarrow> LowPassEffect" where
  "lowpass_apply f (LpProcess l r) = snd (lowpass_process f (l, r))"
| "lowpass_apply f LpReset = lowpass_reset f"
| "lowpass_apply f (LpSetSampleRate sr) = lowpass_setSampleRate f sr"
| "lowpass_apply f (LpSetCutoff c) = setCutoff f c"
| "lowpass_apply f (LpSetResonance q) = setResonance f q"
| "lowpass_apply f (LpSetMix m) = lowpass_setMix f m"

fun lowpass_run :: "LowPassEffect \<Rightarrow> LowPassOp list \<Rightarrow> LowPassEffect" where
  "lowpass_run f [] = f"
| "lowpass_run f (x # xs) = lowpass_run (lowpass_apply f x) xs"

text \<open>What the class keeps: a sample rate of at least 100 Hz and a cutoff in range.\<close>

definition lowpass_inv :: "LowPassEffect \<Rightarrow> bool" where
  "lowpass_inv f = (kMinSampleRate \<le> lp_sampleRate f \<and> cutoff_in_range f)"

section \<open>OctaveEffect (Effects/OctaveEffect.cpp)\<close>

record OctaveEffect =
  oc_higher :: bool
  oc_blend :: real
  oc_phase :: real
  oc_frequency :: real
  oc_sampleRate :: real
  oc_stateL :: real
  oc_stateR :: real

definition OctaveEffect_new :: "bool \<Rightarrow> real \<Rightarrow> OctaveEffect" where
  "OctaveEffect_new higher blend =
     \<lparr> oc_higher = higher,
       oc_blend = min (max blend 0) 1,
       oc_phase = 0,
       oc_frequency = 0,
       oc_sampleRate = 44100,
       oc_stateL = 0,
       oc_stateR = 0 \<rparr>"

definition octave_setFrequency :: "OctaveEffect \<Rightarrow> real \<Rightarrow> OctaveEffect" where
  "octave_setFrequency e frequency =
     (if frequency > 0 \<and> frequency \<le> 20000 then e\<lparr> oc_frequency := frequency \<rparr> else e)"

definition octave_setSampleRate :: "OctaveEffect \<Rightarrow> real \<Rightarrow> OctaveEffect" where
  "octave_setSampleRate e sampleRate =
     (if sampleRate > 0 then e\<lparr> oc_sampleRate := sampleRate \<rparr> else e)"

section \<open>ADSREnvelope\<close>

text \<open>
  Modelled from the spec: the class \<^verbatim>\<open>ADSREnvelope\<close> (Envelope/ADSREnvelope.h) is used by
  the engine but is not among the sources. The spec gives it the states Idle, Attack,
  Decay, Sustain and Release, the parameters attack, decay, sustain level and release, a
  level in [0, 1], and says that \<^verbatim>\<open>reset()\<close> returns to Idle, level 0. Only the
  construction and \<^verbatim>\<open>reset()\<close> are modelled; a new envelope is Idle at level 0.
\<close>

datatype EnvelopeStage = Idle | Attack | Decay | Sustain | Release

record ADSREnvelope =
  env_attack :: real
  env_decay :: real
  env_sustain :: real
  env_release :: real
  env_stage :: EnvelopeStage
  env_level :: real

definition ADSREnvelope_new :: "real \<Rightarrow> real \<Rightarrow> real \<Rightarrow> real \<Rightarrow> ADSREnvelope" where
  "ADSREnvelope_new attackTime decayTime sustainLevel releaseTime =
     \<lparr> env_attack = attackTime,
       env_decay = decayTime,
       env_sustain = sustainLevel,
       env_release = releaseTime,
       env_stage = Idle,
       env_level = 0 \<rparr>"

definition envelope_reset :: "ADSREnvelope \<Rightarrow> ADSREnvelope" where
  "envelope_reset e = e\<lparr> env_stage := Idle, env_level := 0 \<rparr>"

section \<open>AudioSystem (Core/audioSystem.h and its implementation)\<close>

text \<open>
  The four waveform classes are stateless; a shared pointer to one is the name of its
  class, \<open>None\<close> the null pointer. The effects of the chain are the three classes the
  engine casts to. An effect is held by value: a second owner of the same object is not
  modelled.
\<close>

datatype Waveform = SineWave | SquareWave | SawtoothWave | TriangleWave

datatype Effect = Octave OctaveEffect | Delay DelayEffect | LowPass LowPassEffect

record ActiveNote =
  an_frequency :: real
  an_detuneCents :: real

record AudioSystem =
  as_frequency :: real
  as_sampleRate :: real
  as_primaryPhase :: real
  as_secondaryPhase :: real
  as_noteOn :: bool
  as_effects :: "Effect list"
  as_primaryWaveform :: "Waveform option"
  as_secondaryWaveform :: "Waveform option"
  as_envelope :: "ADSREnvelope option"
  as_activeNotes :: "ActiveNote list"
  as_lfoPhase :: real
  as_lfoRateHz :: real
  as_lfoAmountCents :: real
  as_noteJitterAmountCents :: real
  as_noteDetuneCents :: real
  as_waveformTap :: "StereoSampleRingBuffer option"
  as_secondaryEnabled :: bool
  as_secondaryMix :: real
  as_secondaryDetuneCents :: real
  as_secondaryOctaveOffset :: int
  as_pitchBendCents :: real
  as_lowPassActive :: bool
  as_lastLowPassCutoff :: real

text \<open>The constructor: the member initialisers, then the body.\<close>

definition AudioSystem_new :: "real \<Rightarrow> AudioSystem" where
  "AudioSystem_new sampleRate =
     (let s0 = \<lparr> as_frequency = 0,
                 as_sampleRate = (if sampleRate > 0 then sampleRate else 44100),
                 as_primaryPhase = 0,
                 as_secondaryPhase = 0,
                 as_noteOn = False,
                 as_effects = [],
                 as_primaryWaveform = None,
                 as_secondaryWaveform = None,
                 as_envelope = None,
                 as_activeNotes = [],
                 as_lfoPhase = 0,
                 as_lfoRateHz = 0.35,
                 as_lfoAmountCents = 4,
                 as_noteJitterAmountCents = 3,
                 as_noteDetuneCents = 0,
                 as_waveformTap = None,
                 as_secondaryEnabled = False,
                 as_secondaryMix = 0,
                 as_secondaryDetuneCents = 0,
                 as_secondaryOctaveOffset = 0,
                 as_pitchBendCents = 0,
                 as_lowPassActive = False,
                 as_lastLowPassCutoff = 0 \<rparr>;
          s1 = (if sampleRate \<le> 0 then s0\<lparr> as_sampleRate := 44100 \<rparr> else s0);
          s2 = s1\<lparr> as_primaryWaveform := Some SquareWave \<rparr>;
          s3 = s2\<lparr> as_secondaryWaveform := as_primaryWaveform s2 \<rparr>
      in s3\<lparr> as_envelope := Some (ADSREnvelope_new 0.1 0.2 0.7 0.3) \<rparr>)"

text \<open>The body of the loop over the effects at the end of \<^verbatim>\<open>triggerNote\<close>.\<close>

fun configure_effect :: "real \<Rightarrow> real \<Rightarrow> Effect \<Rightarrow> Effect" where
  "configure_effect newFrequency sampleRate (Octave e) =
     Octave (octave_setSampleRate (octave_setFrequency e newFrequency) sampleRate)"
| "configure_effect newFrequency sampleRate (Delay d) = Delay (delay_setSampleRate d sampleRate)"
| "configure_effect newFrequency sampleRate (LowPass f) = LowPass (lowpass_setSampleRate f sampleRate)"

text \<open>
  \<^verbatim>\<open>triggerNote(newFrequency)\<close>. \<open>detune\<close> is the draw from the uniform distribution on
  the jitter range, \<open>lfoDraw\<close> the draw from [0, 1) that is made when no note was active.
\<close>

definition triggerNote :: "AudioSystem \<Rightarrow> real \<Rightarrow> real \<Rightarrow> real \<Rightarrow> AudioSystem" where
  "triggerNote s newFrequency detune lfoDraw =
     (if newFrequency \<le> 0 \<or> newFrequency > 20000 then s
      else
        (let hadActiveNotes = (as_activeNotes s \<noteq> []);
             s1 = s\<lparr> as_activeNotes :=
                       as_activeNotes s @ [\<lparr> an_frequency = newFrequency, an_detuneCents = detune \<rparr>],
                     as_frequency := newFrequency,
                     as_noteDetuneCents := detune,
                     as_noteOn := True \<rparr>;
             s2 = (if \<not> hadActiveNotes
                   then s1\<lparr> as_primaryPhase := 0,
                            as_secondaryPhase := 0,
                            as_lfoPhase := lfoDraw,
                            as_envelope := map_option envelope_reset (as_envelope s1) \<rparr>
                   else s1)
         in s2\<lparr> as_effects := map (configure_effect newFrequency (as_sampleRate s2)) (as_effects s2) \<rparr>))"

text \<open>Erasing the first element that matches; on the reversed list, the most recent one.\<close>

fun erase_first :: "('a \<Rightarrow> bool) \<Rightarrow> 'a list \<Rightarrow> 'a list" where
  "erase_first P [] = []"
| "erase_first P (x # xs) = (if P x then xs else x # erase_first P xs)"

definition erase_last_match :: "('a \<Rightarrow> bool) \<Rightarrow> 'a list \<Rightarrow> 'a list" where
  "erase_last_match P xs = rev (erase_first P (rev xs))"

text \<open>\<^verbatim>\<open>triggerNoteOff(frequency)\<close>; \<open>None\<close> is NaN, the default argument.\<close>

definition triggerNoteOff :: "AudioSystem \<Rightarrow> real option \<Rightarrow> AudioSystem" where
  "triggerNoteOff s frequency =
     (case frequency of
        None \<Rightarrow> s\<lparr> as_activeNotes := [], as_noteOn := False \<rparr>
      | Some f \<Rightarrow>
          (let isMatch = (\<lambda>active. \<bar>an_frequency active - f\<bar> < 1 / 1000);
               notes = erase_last_match isMatch (as_activeNotes s);
               s1 = s\<lparr> as_activeNotes := notes \<rparr>
           in if notes = [] then s1\<lparr> as_noteOn := False \<rparr>
              else s1\<lparr> as_frequency := an_frequency (last notes),
                       as_noteDetuneCents := an_detuneCents (last notes),
                       as_noteOn := True \<rparr>))"

text \<open>\<^verbatim>\<open>setPitchBend(int value)\<close>; the argument is only compared and converted.\<close>

definition setPitchBend :: "AudioSystem \<Rightarrow> int \<Rightarrow> AudioSystem" where
  "setPitchBend s v =
     (let clamped = max (- 8192) (min 8191 v);
          normalized = (if clamped \<ge> 0 then real_of_int clamped / 8191
                        else real_of_int clamped / 8192);
          semitoneRange = 1
      in s\<lparr> as_pitchBendCents := normalized * (semitoneRange * 100) \<rparr>)"

text \<open>The loop of \<^verbatim>\<open>setLowPassCutoff\<close>: the effects after it and the flag \<open>updated\<close>.\<close>

fun setLowPassCutoff_loop :: "real \<Rightarrow> Effect list \<Rightarrow> bool \<Rightarrow> Effect list \<times> bool" where
  "setLowPassCutoff_loop cutoffHz [] updated = ([], updated)"
| "setLowPassCutoff_loop cutoffHz (LowPass f # es) updated =
     (let (es1, u) = setLowPassCutoff_loop cutoffHz es True
      in (LowPass (setCutoff f cutoffHz) # es1, u))"
| "setLowPassCutoff_loop cutoffHz (e # es) updated =
     (let (es1, u) = setLowPassCutoff_loop cutoffHz es updated in (e # es1, u))"

definition setLowPassCutoff :: "AudioSystem \<Rightarrow> real \<Rightarrow> AudioSystem" where
  "setLowPassCutoff s cutoffHz =
     (let (es, updated) = setLowPassCutoff_loop cutoffHz (as_effects s) False;
          s1 = s\<lparr> as_effects := es \<rparr>
      in if updated then s1\<lparr> as_lowPassActive := True, as_lastLowPassCutoff := cutoffHz \<rparr>
         else s1\<lparr> as_lowPassActive := False, as_lastLowPassCutoff := 0 \<rparr>)"

section \<open>AudioSystemAdapter (AudioSystemAdapter.cpp)\<close>

text \<open>
  Modelled from the spec: the declaration of \<^verbatim>\<open>MidiEvent\<close> and of its type tag is not
  among the sources. The adapter reads the fields \<^verbatim>\<open>type\<close>, \<^verbatim>\<open>data1\<close>, \<^verbatim>\<open>data2\<close> (bytes) and
  \<^verbatim>\<open>value\<close> (an int) and names four tags; every other tag is \<open>OTHER_EVENT\<close>. For a note
  event the spec calls \<^verbatim>\<open>data1\<close> the note number and \<^verbatim>\<open>data2\<close> the velocity. The table
  \<^verbatim>\<open>MIDI_NOTE_FREQUENCIES\<close> (Common/notes.h) is an argument.
\<close>

datatype MidiEventType = NOTE_ON | NOTE_OFF | PITCH_BEND | CONTROL_CHANGE | OTHER_EVENT

record MidiEvent =
  ev_type :: MidiEventType
  ev_data1 :: "8 word"
  ev_data2 :: "8 word"
  ev_value :: int

datatype AdapterError = InvalidArgument

text \<open>The call that \<^verbatim>\<open>update\<close> makes on the engine.\<close>

datatype EngineCall =
    CallTriggerNote real
  | CallTriggerNoteOff "real option"
  | CallSetPitchBend int
  | CallSetLowPassCutoff real
  | NoCall

text \<open>\<^verbatim>\<open>AudioSystemAdapter::update(params)\<close>, up to the call: \<open>None\<close> is the null pointer.\<close>

definition update_call :: "real list \<Rightarrow> MidiEvent option \<Rightarrow> AdapterError + EngineCall" where
  "update_call MIDI_NOTE_FREQUENCIES params =
     (case params of
        None \<Rightarrow> Inl InvalidArgument
      | Some event \<Rightarrow>
          Inr (case ev_type event of
                 NOTE_ON \<Rightarrow>
                   (let noteNumber = unat (ev_data1 event) in
                    if noteNumber < length MIDI_NOTE_FREQUENCIES
                    then CallTriggerNote (MIDI_NOTE_FREQUENCIES ! noteNumber)
                    else NoCall)
               | NOTE_OFF \<Rightarrow>
                   (let noteNumber = unat (ev_data1 event) in
                    if noteNumber < length MIDI_NOTE_FREQUENCIES
                    then CallTriggerNoteOff (Some (MIDI_NOTE_FREQUENCIES ! noteNumber))
                    else CallTriggerNoteOff None)
               | PITCH_BEND \<Rightarrow> CallSetPitchBend (ev_value event)
               | CONTROL_CHANGE \<Rightarrow>
                   (if ev_data1 event = 7
                    then
                      (let minCutoff = 80;
                           maxCutoff = 12000;
                           normalized = real (unat (ev_data2 event)) / 127;
                           ratio = maxCutoff / minCutoff;
                           cutoff = minCutoff * (ratio powr normalized)
                       in CallSetLowPassCutoff cutoff)
                    else NoCall)
               | OTHER_EVENT \<Rightarrow> NoCall))"

text \<open>The effect of a call on the engine, with the draws that \<^verbatim>\<open>triggerNote\<close> would make.\<close>

fun apply_call :: "AudioSystem \<Rightarrow> real \<Rightarrow> real \<Rightarrow> EngineCall \<Rightarrow> AudioSystem" where
  "apply_call s detune lfoDraw (CallTriggerNote f) = triggerNote s f detune lfoDraw"
| "apply_call s detune lfoDraw (CallTriggerNoteOff f) = triggerNoteOff s f"
| "apply_call s detune lfoDraw (CallSetPitchBend v) = setPitchBend s v"
| "apply_call s detune lfoDraw (CallSetLowPassCutoff c) = setLowPassCutoff s c"
| "apply_call s detune lfoDraw NoCall = s"

definition AudioSystemAdapter_update ::
  "real list \<Rightarrow> AudioSystem \<Rightarrow> real \<Rightarrow> real \<Rightarrow> MidiEvent option \<Rightarrow> AdapterError + AudioSystem" where
  "AudioSystemAdapter_update MIDI_NOTE_FREQUENCIES s detune lfoDraw params =
     (case update_call MIDI_NOTE_FREQUENCIES params of
        Inl e \<Rightarrow> Inl e
      | Inr c \<Rightarrow> Inr (apply_call s detune lfoDraw c))"

section \<open>The MIDI translator\<close>

text \<open>
  Claim C1, as the specification states it: a NOTE_ON event with velocity 0 and a note
  number inside the frequency table makes the translator call \<^verbatim>\<open>trigger_note_off\<close> and
  not \<^verbatim>\<open>trigger_note\<close>. The adapter never reads the velocity byte: at the event below
  (note 2, velocity 0) it calls \<^verbatim>\<open>triggerNote\<close> with the table frequency.
\<close>

theorem note_on_velocity_zero_counterexample:
  "update_call [8.18, 8.66, 9.18]
      (Some \<lparr> ev_type = NOTE_ON, ev_data1 = 2, ev_data2 = 0, ev_value = 0 \<rparr>)
     = Inr (CallTriggerNote 9.18)
   \<and> update_call [8.18, 8.66, 9.18]
      (Some \<lparr> ev_type = NOTE_ON, ev_data1 = 2, ev_data2 = 0, ev_value = 0 \<rparr>)
     \<noteq> Inr (CallTriggerNoteOff (Some 9.18))"
  by (simp add: update_call_def)

text \<open>
  Claim C1, amended: for every NOTE_ON event whose note number is inside the frequency
  table, whatever its velocity byte, the translator calls \<^verbatim>\<open>trigger_note\<close> with the table
  frequency; it calls \<^verbatim>\<open>trigger_note_off\<close> with that frequency exactly on a NOTE_OFF event.
\<close>

theorem note_on_calls_trigger_note:
  assumes "unat (ev_data1 ev) < length tbl"
  shows "(ev_type ev = NOTE_ON \<longrightarrow>
            update_call tbl (Some ev) = Inr (CallTriggerNote (tbl ! unat (ev_data1 ev)))
          \<and> AudioSystemAdapter_update tbl s detune lfoDraw (Some ev)
              = Inr (triggerNote s (tbl ! unat (ev_data1 ev)) detune lfoDraw))
       \<and> (ev_type ev = NOTE_OFF \<longrightarrow>
            update_call tbl (Some ev) = Inr (CallTriggerNoteOff (Some (tbl ! unat (ev_data1 ev))))
          \<and> AudioSystemAdapter_update tbl s detune lfoDraw (Some ev)
              = Inr (triggerNoteOff s (Some (tbl ! unat (ev_data1 ev)))))
       \<and> (update_call tbl (Some ev) = Inr (CallTriggerNoteOff (Some (tbl ! unat (ev_data1 ev))))
            \<longleftrightarrow> ev_type ev = NOTE_OFF)"
  using assms
  by (cases "ev_type ev") (simp_all add: update_call_def AudioSystemAdapter_update_def Let_def)

theorem note_on_calls_trigger_note_witness:
  "unat (2 :: 8 word) < length [8.18, 8.66, 9.18 :: real]
   \<and> update_call [8.18, 8.66, 9.18]
        (Some \<lparr> ev_type = NOTE_ON, ev_data1 = 2, ev_data2 = 0, ev_value = 0 \<rparr>)
      = Inr (CallTriggerNote 9.18)
   \<and> update_call [8.18, 8.66, 9.18]
        (Some \<lparr> ev_type = NOTE_ON, ev_data1 = 2, ev_data2 = 100, ev_value = 0 \<rparr>)
      = Inr (CallTriggerNote 9.18)
   \<and> update_call [8.18, 8.66, 9.18]
        (Some \<lparr> ev_type = NOTE_OFF, ev_data1 = 2, ev_data2 = 0, ev_value = 0 \<rparr>)
      = Inr (CallTriggerNoteOff (Some 9.18))"
  using
    note_on_calls_trigger_note[where tbl = "[8.18, 8.66, 9.18]"
      and ev = "\<lparr> ev_type = NOTE_ON, ev_data1 = 2, ev_data2 = 0, ev_value = 0 \<rparr>"]
    note_on_calls_trigger_note[where tbl = "[8.18, 8.66, 9.18]"
      and ev = "\<lparr> ev_type = NOTE_ON, ev_data1 = 2, ev_data2 = 100, ev_value = 0 \<rparr>"]
    note_on_calls_trigger_note[where tbl = "[8.18, 8.66, 9.18]"
      and ev = "\<lparr> ev_type = NOTE_OFF, ev_data1 = 2, ev_data2 = 0, ev_value = 0 \<rparr>"]
  by simp

section \<open>The ring buffer\<close>

lemma length_interleave: "length (interleave ps) = 2 * length ps"
  by (induction ps rule: interleave.induct) simp_all

lemma copy_frames_length: "length (copy_frames rb s n i d) = length d"
proof (induction rb s n i d rule: copy_frames.induct)
  case (1 rb startFrame framesToCopy i dest)
  show ?case
  proof (cases "i < framesToCopy")
    case True
    with "1.IH" show ?thesis
      by (subst copy_frames.simps) (simp add: Let_def)
  next
    case False
    then show ?thesis by (subst copy_frames.simps) simp
  qed
qed

lemma copy_frames_nth:
  "n \<le> rb_capacityFrames rb \<Longrightarrow> j < length d \<Longrightarrow>
   copy_frames rb 0 n i d ! j = (if 2 * i \<le> j \<and> j < 2 * n then rb_buffer rb ! j else d ! j)"
proof (induction rb "0::nat" n i d rule: copy_frames.induct)
  case (1 rb framesToCopy i dest)
  show ?case
  proof (cases "i < framesToCopy")
    case True
    let ?d2 = "(dest[i * 2 := rb_buffer rb ! (i * 2)])[i * 2 + 1 := rb_buffer rb ! (i * 2 + 1)]"
    from True "1.prems" have lt: "\<not> rb_capacityFrames rb \<le> i" by simp
    have step: "copy_frames rb 0 framesToCopy i dest = copy_frames rb 0 framesToCopy (i + 1) ?d2"
      using True lt by (subst copy_frames.simps) (simp add: Let_def)
    have ih: "copy_frames rb 0 framesToCopy (i + 1) ?d2 ! j =
        (if 2 * (i + 1) \<le> j \<and> j < 2 * framesToCopy then rb_buffer rb ! j else ?d2 ! j)"
      using "1.hyps"[OF True refl refl refl refl refl] "1.prems" lt by (simp add: Let_def)
    have "?d2 ! j = (if j = i * 2 \<or> j = i * 2 + 1 then rb_buffer rb ! j else dest ! j)"
      using "1.prems" by (auto simp: nth_list_update)
    with step ih True show ?thesis
      by (auto simp: mult.commute)
  next
    case False
    then show ?thesis by (subst copy_frames.simps) auto
  qed
qed

lemma push_buffer_take:
  assumes "length (rb_buffer rb) = 2 * rb_capacityFrames rb" "rb_writeIndex rb = k" "k < rb_capacityFrames rb"
  shows "take (2 * (k + 1)) (rb_buffer (push l r rb)) = take (2 * k) (rb_buffer rb) @ [l, r]"
    and "length (rb_buffer (push l r rb)) = length (rb_buffer rb)"
    and "rb_capacityFrames (push l r rb) = rb_capacityFrames rb"
    and "rb_writeIndex (push l r rb) = (if k + 1 = rb_capacityFrames rb then 0 else k + 1)"
    and "rb_totalFramesWritten (push l r rb) = (rb_totalFramesWritten rb + 1) mod SIZE_MOD"
  using assms
  by (auto simp: push_def Let_def list_eq_iff_nth_eq nth_append nth_list_update mult.commute less_Suc_eq
      nth_Cons')

lemma push_all_state:
  assumes "length (rb_buffer rb) = 2 * rb_capacityFrames rb"
    and "rb_writeIndex rb = k mod rb_capacityFrames rb"
    and "rb_totalFramesWritten rb = k"
    and "k + length ps \<le> rb_capacityFrames rb"
    and "rb_capacityFrames rb < SIZE_MOD"
  shows "rb_capacityFrames (push_all ps rb) = rb_capacityFrames rb
       \<and> length (rb_buffer (push_all ps rb)) = 2 * rb_capacityFrames rb
       \<and> rb_writeIndex (push_all ps rb) = (k + length ps) mod rb_capacityFrames rb
       \<and> rb_totalFramesWritten (push_all ps rb) = k + length ps
       \<and> take (2 * (k + length ps)) (rb_buffer (push_all ps rb))
           = take (2 * k) (rb_buffer rb) @ interleave ps"
  using assms
proof (induction ps rb arbitrary: k rule: push_all.induct)
  case (1 rb)
  then show ?case by simp
next
  case (2 l r ps rb)
  let ?rb1 = "push l r rb"
  from "2.prems" have k: "k < rb_capacityFrames rb" by simp
  then have w: "rb_writeIndex rb = k" using "2.prems" by simp
  note p = push_buffer_take[OF "2.prems"(1) w k, of l r]
  have w1: "rb_writeIndex ?rb1 = (k + 1) mod rb_capacityFrames ?rb1"
    using p(3,4) k by (auto simp: mod_less)
  have t1: "rb_totalFramesWritten ?rb1 = k + 1"
    using p(5) "2.prems" k by simp
  have ih: "rb_capacityFrames (push_all ps ?rb1) = rb_capacityFrames ?rb1
       \<and> length (rb_buffer (push_all ps ?rb1)) = 2 * rb_capacityFrames ?rb1
       \<and> rb_writeIndex (push_all ps ?rb1) = (k + 1 + length ps) mod rb_capacityFrames ?rb1
       \<and> rb_totalFramesWritten (push_all ps ?rb1) = k + 1 + length ps
       \<and> take (2 * (k + 1 + length ps)) (rb_buffer (push_all ps ?rb1))
           = take (2 * (k + 1)) (rb_buffer ?rb1) @ interleave ps"
    using "2.prems" p(2,3) by (intro "2.IH"[OF _ w1 t1]) simp_all
  then show ?case using p(1,3) by simp
qed

lemma new_state:
  assumes "1 \<le> C" "C * 2 < SIZE_MOD"
  shows "rb_capacityFrames (StereoSampleRingBuffer_new C) = C"
    and "length (rb_buffer (StereoSampleRingBuffer_new C)) = 2 * C"
    and "rb_writeIndex (StereoSampleRingBuffer_new C) = 0"
    and "rb_totalFramesWritten (StereoSampleRingBuffer_new C) = 0"
  using assms by (simp_all add: StereoSampleRingBuffer_new_def Let_def max_def)

text \<open>
  Claim C2: for every capacity \<open>C \<ge> 1\<close> (with a sample store of \<open>2 * C\<close> floats that a
  \<^verbatim>\<open>size_t\<close> can count) and every sequence \<open>ps\<close> of \<open>N \<le> C\<close> pushes on a freshly
  constructed buffer, \<^verbatim>\<open>copyLatestInterleaved(dest, N)\<close> returns \<open>N\<close> and leaves in the
  first \<open>2 * N\<close> places of \<open>dest\<close> the pushed pairs, interleaved, oldest first; the rest of
  \<open>dest\<close> is untouched.
\<close>

theorem ring_buffer_copy_latest:
  assumes C: "1 \<le> C" "C * 2 < SIZE_MOD"
    and N: "length ps \<le> C"
    and D: "2 * length ps \<le> length dest"
  shows "copyLatestInterleaved (push_all ps (StereoSampleRingBuffer_new C)) (Some dest) (length ps)
       = (length ps, Some (interleave ps @ drop (2 * length ps) dest))"
proof (cases "ps = []")
  case True
  then show ?thesis by (simp add: copyLatestInterleaved_def)
next
  case False
  let ?fresh = "StereoSampleRingBuffer_new C"
  let ?rb = "push_all ps ?fresh"
  let ?n = "length ps"
  note n0 = new_state[OF C]
  have st: "rb_capacityFrames ?rb = C \<and> length (rb_buffer ?rb) = 2 * C
       \<and> rb_writeIndex ?rb = ?n mod C \<and> rb_totalFramesWritten ?rb = ?n
       \<and> take (2 * ?n) (rb_buffer ?rb) = interleave ps"
    using push_all_state[where rb = ?fresh and k = 0 and ps = ps] n0 N C by simp
  have npos: "0 < ?n" using False by simp
  have cp: "copyLatestInterleaved ?rb (Some dest) ?n = (?n, Some (copy_frames ?rb 0 ?n 0 dest))"
  proof (cases "?n = C")
    case True
    then show ?thesis
      using st npos by (simp add: copyLatestInterleaved_def availableFrames_def Let_def)
  next
    case False
    with N have "?n < C" by simp
    then show ?thesis
      using st npos by (simp add: copyLatestInterleaved_def availableFrames_def Let_def)
  qed
  have "copy_frames ?rb 0 ?n 0 dest = interleave ps @ drop (2 * ?n) dest"
  proof (rule nth_equalityI)
    show "length (copy_frames ?rb 0 ?n 0 dest) = length (interleave ps @ drop (2 * ?n) dest)"
      using D by (simp add: copy_frames_length length_interleave)
  next
    fix j assume "j < length (copy_frames ?rb 0 ?n 0 dest)"
    then have j: "j < length dest" by (simp add: copy_frames_length)
    have "copy_frames ?rb 0 ?n 0 dest ! j = (if j < 2 * ?n then rb_buffer ?rb ! j else dest ! j)"
      using copy_frames_nth[of ?n ?rb j dest 0] st N j by simp
    moreover have "j < 2 * ?n \<Longrightarrow> rb_buffer ?rb ! j = interleave ps ! j"
      using st by (metis nth_take)
    ultimately show "copy_frames ?rb 0 ?n 0 dest ! j = (interleave ps @ drop (2 * ?n) dest) ! j"
      using D j by (simp add: nth_append length_interleave)
  qed
  with cp show ?thesis by simp
qed

theorem ring_buffer_copy_latest_witness:
  "copyLatestInterleaved (push_all [(1, -1), (2, -2), (3, -3)] (StereoSampleRingBuffer_new 4))
      (Some [9, 9, 9, 9, 9, 9, 9, 9]) 3
   = (3, Some [1, -1, 2, -2, 3, -3, 9, 9])"
  using ring_buffer_copy_latest[of 4 "[(1, -1), (2, -2), (3, -3)]" "[9, 9, 9, 9, 9, 9, 9, 9]"]
  by (simp add: SIZE_MOD_def numeral_3_eq_3)

section \<open>The delay effect\<close>

lemma clampValue_range: "low \<le> high \<Longrightarrow> low \<le> clampValue v low high \<and> clampValue v low high \<le> high"
  by (auto simp: clampValue_def)

lemma allocateBuffers_shape:
  assumes "length (dl_bufferRight d) = bufferLength d"
  shows "2 \<le> bufferLength (allocateBuffers d)"
    and "length (dl_bufferRight (allocateBuffers d)) = bufferLength (allocateBuffers d)"
    and "dl_writeIndex (allocateBuffers d) < bufferLength (allocateBuffers d)"
    and "dl_delaySamples (allocateBuffers d) \<le> bufferLength (allocateBuffers d) - 1"
    and "dl_delayTime (allocateBuffers d) = dl_delayTime d"
    and "dl_sampleRate (allocateBuffers d) = dl_sampleRate d"
  using assms by (auto simp: allocateBuffers_def bufferLength_def Let_def)

lemma updateDelaySamples_inv:
  assumes "2 \<le> bufferLength d" "length (dl_bufferRight d) = bufferLength d"
    "dl_writeIndex d < bufferLength d"
  shows "delay_inv (updateDelaySamples d)" and "delay_synced (updateDelaySamples d)"
  using assms clampValue_range[of 1 "bufferLength d - 1"]
  by (auto simp: updateDelaySamples_def delay_inv_def delay_synced_def bufferLength_def Let_def)

lemma delay_reset_inv: "delay_inv d \<Longrightarrow> delay_inv (delay_reset d)"
  and delay_reset_synced: "delay_synced d \<Longrightarrow> delay_synced (delay_reset d)"
  by (auto simp: delay_reset_def delay_inv_def delay_synced_def bufferLength_def)

lemma DelayEffect_new_inv: "delay_inv (DelayEffect_new dt fb mx sr)"
  and DelayEffect_new_synced: "delay_synced (DelayEffect_new dt fb mx sr)"
proof -
  let ?d0 = "\<lparr> dl_bufferLeft = [], dl_bufferRight = [], dl_writeIndex = 0, dl_delaySamples = 1,
         dl_delayTime = clampValue dt kMinDelaySeconds kMaxDelaySeconds,
         dl_feedback = clampValue fb 0 kMaxFeedback,
         dl_mix = clampValue mx 0 1,
         dl_sampleRate = max sr 100 \<rparr>"
  have "length (dl_bufferRight ?d0) = bufferLength ?d0" by (simp add: bufferLength_def)
  note a = allocateBuffers_shape[OF this]
  show "delay_inv (DelayEffect_new dt fb mx sr)"
    unfolding DelayEffect_new_def by (intro delay_reset_inv updateDelaySamples_inv a)
  show "delay_synced (DelayEffect_new dt fb mx sr)"
    unfolding DelayEffect_new_def by (intro delay_reset_synced updateDelaySamples_inv a)
qed

lemma delay_process_inv: "delay_inv d \<Longrightarrow> delay_inv (snd (delay_process d x))"
  and delay_process_synced: "delay_synced d \<Longrightarrow> delay_synced (snd (delay_process d x))"
  by (auto simp: delay_process_def delay_inv_def delay_synced_def bufferLength_def Let_def)

lemma delay_setSampleRate_inv: "delay_inv d \<Longrightarrow> delay_inv (delay_setSampleRate d sr)"
  and delay_setSampleRate_synced: "delay_inv d \<Longrightarrow> delay_synced d \<Longrightarrow> delay_synced (delay_setSampleRate d sr)"
proof -
  have "length (dl_bufferRight (d\<lparr>dl_sampleRate := sr\<rparr>)) = bufferLength (d\<lparr>dl_sampleRate := sr\<rparr>)"
    if "delay_inv d"
    using that by (simp add: delay_inv_def bufferLength_def)
  note a = allocateBuffers_shape[OF this]
  show "delay_inv d \<Longrightarrow> delay_inv (delay_setSampleRate d sr)"
    unfolding delay_setSampleRate_def using updateDelaySamples_inv(1) a by simp
  show "delay_inv d \<Longrightarrow> delay_synced d \<Longrightarrow> delay_synced (delay_setSampleRate d sr)"
    unfolding delay_setSampleRate_def using updateDelaySamples_inv(2) a by simp
qed

lemma setDelayTime_inv: "delay_inv d \<Longrightarrow> delay_inv (setDelayTime d t)"
  and setDelayTime_synced: "delay_inv d \<Longrightarrow> delay_synced d \<Longrightarrow> delay_synced (setDelayTime d t)"
proof -
  let ?d1 = "d\<lparr>dl_delayTime := clampValue t kMinDelaySeconds kMaxDelaySeconds\<rparr>"
  have s: "2 \<le> bufferLength ?d1 \<and> length (dl_bufferRight ?d1) = bufferLength ?d1
      \<and> dl_writeIndex ?d1 < bufferLength ?d1" if "delay_inv d"
    using that by (simp add: delay_inv_def bufferLength_def)
  show "delay_inv d \<Longrightarrow> delay_inv (setDelayTime d t)"
    unfolding setDelayTime_def Let_def using updateDelaySamples_inv(1)[of ?d1] s by simp
  show "delay_inv d \<Longrightarrow> delay_synced d \<Longrightarrow> delay_synced (setDelayTime d t)"
    unfolding setDelayTime_def Let_def using updateDelaySamples_inv(2)[of ?d1] s by simp
qed

lemma setFeedback_inv: "delay_inv d \<Longrightarrow> delay_inv (setFeedback d g)"
  and setFeedback_synced: "delay_synced d \<Longrightarrow> delay_synced (setFeedback d g)"
  and delay_setMix_inv: "delay_inv d \<Longrightarrow> delay_inv (delay_setMix d m)"
  and delay_setMix_synced: "delay_synced d \<Longrightarrow> delay_synced (delay_setMix d m)"
  by (simp_all add: setFeedback_def delay_setMix_def delay_inv_def delay_synced_def bufferLength_def)

lemma delay_apply_inv: "delay_inv d \<Longrightarrow> delay_inv (delay_apply d x)"
  by (cases x) (simp_all add: delay_process_inv delay_reset_inv setDelayTime_inv setFeedback_inv
      delay_setMix_inv delay_setSampleRate_inv)

lemma delay_apply_synced: "delay_inv d \<Longrightarrow> delay_synced d \<Longrightarrow> delay_synced (delay_apply d x)"
  by (cases x) (simp_all add: delay_process_synced delay_reset_synced setDelayTime_synced
      setFeedback_synced delay_setMix_synced delay_setSampleRate_synced)

lemma delay_run_inv: "delay_inv d \<Longrightarrow> delay_inv (delay_run d xs)"
  by (induction xs arbitrary: d) (simp_all add: delay_apply_inv)

lemma delay_run_synced: "delay_inv d \<Longrightarrow> delay_synced d \<Longrightarrow> delay_synced (delay_run d xs)"
  by (induction xs arbitrary: d) (simp_all add: delay_apply_inv delay_apply_synced)

lemma delay_process_general:
  assumes "delay_inv d"
  shows "delay_process d (xL, xR) =
     (let len = bufferLength d; w = dl_writeIndex d; r = (w + len - dl_delaySamples d) mod len;
          delayedL = dl_bufferLeft d ! r; delayedR = dl_bufferRight d ! r
      in (((1 - dl_mix d) * xL + dl_mix d * delayedL, (1 - dl_mix d) * xR + dl_mix d * delayedR),
          d\<lparr> dl_bufferLeft := (dl_bufferLeft d)[w := clampValue (xL + dl_feedback d * delayedL) (- 2) 2],
             dl_bufferRight := (dl_bufferRight d)[w := clampValue (xR + dl_feedback d * delayedR) (- 2) 2],
             dl_writeIndex := (w + 1) mod len \<rparr>))"
  using assms by (simp add: delay_process_def delay_inv_def Let_def mult.commute)

lemma read_index_facts:
  assumes "delay_inv d"
  shows "(dl_writeIndex d + bufferLength d - dl_delaySamples d) mod bufferLength d < bufferLength d"
    and "(dl_writeIndex d + bufferLength d - dl_delaySamples d) mod bufferLength d \<noteq> dl_writeIndex d"
proof -
  let ?len = "bufferLength d" and ?w = "dl_writeIndex d" and ?D = "dl_delaySamples d"
  from assms have b: "2 \<le> ?len" "?w < ?len" "1 \<le> ?D" "?D \<le> ?len - 1"
    by (simp_all add: delay_inv_def)
  then show "(?w + ?len - ?D) mod ?len < ?len" by simp
  show "(?w + ?len - ?D) mod ?len \<noteq> ?w"
  proof (cases "?D \<le> ?w")
    case True
    then have "(?w + ?len - ?D) mod ?len = ?w - ?D"
      using b by (metis Nat.add_diff_assoc2 less_imp_diff_less mod_add_self2 mod_less)
    then show ?thesis using b True by simp
  next
    case False
    then have "?w + ?len - ?D < ?len" using b by simp
    then have "(?w + ?len - ?D) mod ?len = ?w + ?len - ?D" by simp
    then show ?thesis using b False by simp
  qed
qed

text \<open>
  Single precision at the values used below. The float nearest to 0.015 is
  16106127 / 2 ^ 30; its exact product with 100 is just below 1.5 and rounds to the
  float 1.5.
\<close>

lemma pow2_powr: "pow2 k = 2 powr (real_of_int k)"
  by (simp add: pow2_def powr_int)

lemma f32_exponent_eq:
  assumes "0 < x" "pow2 e \<le> x" "x < pow2 (e + 1)" "- 126 \<le> e"
  shows "f32_exponent x = e"
proof -
  have "2 powr (real_of_int e) \<le> x" "x < 2 powr (real_of_int e + 1)"
    using assms pow2_powr[of e] pow2_powr[of "e + 1"] by simp_all
  then have "\<lfloor>log 2 x\<rfloor> = e"
    using assms(1) by (subst floor_log_eq_powr_iff) simp_all
  then show ?thesis using assms by (simp add: f32_exponent_def)
qed

lemma f32_eval:
  assumes "0 < x" "pow2 e \<le> x" "x < pow2 (e + 1)" "- 126 \<le> e"
  shows "f32 x = of_int (round_half_even (x / pow2 (e - 23))) * pow2 (e - 23)"
  using assms f32_exponent_eq[OF assms] by (simp add: f32_def Let_def)

lemma f32_literals:
  "f32 (1 / 200) = 5368709 / 1073741824"
  "f32 (3 / 200) = 16106127 / 1073741824"
  by (subst f32_eval[where e = "- 8"], simp_all add: pow2_def round_half_even_def Let_def)
     (subst f32_eval[where e = "- 7"], simp_all add: pow2_def round_half_even_def Let_def)

lemma kMinDelaySeconds_value: "kMinDelaySeconds = 5368709 / 1073741824"
  by (simp add: kMinDelaySeconds_def f32_literals)

lemma f32_products:
  "f32 250 = 250"
  "f32 800 = 800"
  "f32 720 = 720"
  "f32 (402653175 / 268435456) = 3 / 2"
  "f32 (5 / 2) = 5 / 2"
  "f32 (9 / 4) = 9 / 4"
proof -
  show "f32 250 = 250"
    by (subst f32_eval[where e = 7]) (simp_all add: pow2_def round_half_even_def Let_def)
  show "f32 800 = 800"
    by (subst f32_eval[where e = 9]) (simp_all add: pow2_def round_half_even_def Let_def)
  show "f32 720 = 720"
    by (subst f32_eval[where e = 9]) (simp_all add: pow2_def round_half_even_def Let_def)
  show "f32 (402653175 / 268435456) = 3 / 2"
    by (subst f32_eval[where e = 0]) (simp_all add: pow2_def round_half_even_def Let_def)
  show "f32 (5 / 2) = 5 / 2"
    by (subst f32_eval[where e = 1]) (simp_all add: pow2_def round_half_even_def Let_def)
  show "f32 (9 / 4) = 9 / 4"
    by (subst f32_eval[where e = 1]) (simp_all add: pow2_def round_half_even_def Let_def)
qed

text \<open>
  An effect at 100 Hz whose delay time is the float 0.015: 251 samples of buffer and a
  delay of two samples (the exact product would give one), so that the third call of
  \<^verbatim>\<open>process\<close> reads what the first one stored. At a delay time of 1 / 128 the products
  with 320 and 288 are 2.5 and 2.25, and the delays 3 and 2.
\<close>

lemma delay_example_new:
  "DelayEffect_new (16106127 / 1073741824) 0.5 0.5 100 =
   \<lparr> dl_bufferLeft = replicate 251 0, dl_bufferRight = replicate 251 0, dl_writeIndex = 0,
     dl_delaySamples = 2, dl_delayTime = 16106127 / 1073741824, dl_feedback = 0.5, dl_mix = 0.5,
     dl_sampleRate = 100 \<rparr>"
  by (simp add: DelayEffect_new_def allocateBuffers_def updateDelaySamples_def delay_reset_def
      bufferLength_def clampValue_def kMinDelaySeconds_value kMaxDelaySeconds_def kMaxFeedback_def
      to_size_t_def c_round_def f32_products Let_def)

lemma delay_example_run:
  "delay_run (DelayEffect_new (16106127 / 1073741824) 0.5 0.5 100)
     [OpProcess 1 (- 1), OpProcess 0.5 0.25] =
   \<lparr> dl_bufferLeft = (replicate 251 0)[0 := 1, 1 := 0.5],
     dl_bufferRight = (replicate 251 0)[0 := - 1, 1 := 0.25], dl_writeIndex = 2,
     dl_delaySamples = 2, dl_delayTime = 16106127 / 1073741824, dl_feedback = 0.5, dl_mix = 0.5,
     dl_sampleRate = 100 \<rparr>"
  unfolding delay_run.simps delay_apply.simps delay_example_new
  by (simp add: delay_process_def bufferLength_def clampValue_def Let_def)

lemma delay_example_ties:
  "dl_delaySamples (DelayEffect_new (1 / 128) (1 / 2) (1 / 2) 320) = 3"
  "dl_delaySamples (DelayEffect_new (1 / 128) (1 / 2) (1 / 2) 288) = 2"
  by (simp_all add: DelayEffect_new_def allocateBuffers_def updateDelaySamples_def delay_reset_def
      bufferLength_def clampValue_def kMinDelaySeconds_value kMaxDelaySeconds_def kMaxFeedback_def
      to_size_t_def c_round_def f32_products Let_def)

text \<open>
  Claim C4: in every state \<open>d\<close> that a delay effect reaches from its constructor, the
  buffers are not empty and, for every stereo input, \<^verbatim>\<open>process\<close> returns per channel
  \<open>(1 - m) * x + m * delayed\<close> with \<open>delayed\<close> read at \<open>(w + len - D) mod len\<close>, stores
  \<open>clamp (x + g * delayed) (-2) 2\<close> at the write index and advances the write index to
  \<open>(w + 1) mod len\<close>; \<open>D\<close> is the product of delay time and sample rate (the float product,
  as the code computes it), rounded to the nearest integer with ties away from zero and
  clamped into \<open>[1, len - 1]\<close>.
\<close>

theorem delay_process_step:
  "let d = delay_run (DelayEffect_new delayTime feedback mix sampleRate) ops;
       len = bufferLength d; w = dl_writeIndex d; D = dl_delaySamples d;
       g = dl_feedback d; m = dl_mix d;
       r = (w + len - D) mod len;
       delayedL = dl_bufferLeft d ! r; delayedR = dl_bufferRight d ! r;
       out = fst (delay_process d (xL, xR)); d1 = snd (delay_process d (xL, xR))
   in 0 < len \<and> length (dl_bufferRight d) = len \<and> w < len \<and> r < len \<and> r \<noteq> w
      \<and> out = ((1 - m) * xL + m * delayedL, (1 - m) * xR + m * delayedR)
      \<and> dl_bufferLeft d1 = (dl_bufferLeft d)[w := clampValue (xL + g * delayedL) (- 2) 2]
      \<and> dl_bufferRight d1 = (dl_bufferRight d)[w := clampValue (xR + g * delayedR) (- 2) 2]
      \<and> dl_bufferLeft d1 ! w = clampValue (xL + g * delayedL) (- 2) 2
      \<and> dl_bufferRight d1 ! w = clampValue (xR + g * delayedR) (- 2) 2
      \<and> dl_writeIndex d1 = (w + 1) mod len
      \<and> dl_delaySamples d1 = D \<and> dl_feedback d1 = g \<and> dl_mix d1 = m
      \<and> dl_delayTime d1 = dl_delayTime d \<and> dl_sampleRate d1 = dl_sampleRate d
      \<and> D = clampValue (to_size_t (c_round (f32 (dl_delayTime d * dl_sampleRate d)))) 1 (len - 1)
      \<and> 1 \<le> D \<and> D \<le> len - 1"
proof -
  define d where "d = delay_run (DelayEffect_new delayTime feedback mix sampleRate) ops"
  have inv: "delay_inv d"
    unfolding d_def by (rule delay_run_inv) (rule DelayEffect_new_inv)
  have syn: "delay_synced d"
    unfolding d_def by (rule delay_run_synced) (rule DelayEffect_new_inv, rule DelayEffect_new_synced)
  note p = delay_process_general[OF inv, of xL xR]
  note r = read_index_facts[OF inv]
  from inv have b: "2 \<le> bufferLength d" "length (dl_bufferRight d) = bufferLength d"
    "dl_writeIndex d < bufferLength d" "1 \<le> dl_delaySamples d"
    "dl_delaySamples d \<le> bufferLength d - 1"
    by (simp_all add: delay_inv_def)
  have l: "length (dl_bufferLeft d) = bufferLength d" by (simp add: bufferLength_def)
  show ?thesis
    unfolding d_def[symmetric] Let_def
    using p r b l syn by (simp add: Let_def delay_synced_def)
qed

text \<open>
  The witness runs the effect above: the delay of two samples comes from the float product
  1.5, where the exact product rounds to 1, and the third output mixes the input with the
  first stored samples.
\<close>

theorem delay_process_step_witness:
  "bufferLength (delay_run (DelayEffect_new (16106127 / 1073741824) 0.5 0.5 100)
       [OpProcess 1 (- 1), OpProcess 0.5 0.25]) = 251
   \<and> dl_delaySamples (delay_run (DelayEffect_new (16106127 / 1073741824) 0.5 0.5 100)
       [OpProcess 1 (- 1), OpProcess 0.5 0.25]) = 2
   \<and> f32 (16106127 / 1073741824 * 100) = 3 / 2
   \<and> c_round (16106127 / 1073741824 * 100) = 1
   \<and> fst (delay_process (delay_run (DelayEffect_new (16106127 / 1073741824) 0.5 0.5 100)
       [OpProcess 1 (- 1), OpProcess 0.5 0.25]) (0.25, 0.75)) = (0.625, - 0.125)
   \<and> dl_writeIndex (snd (delay_process (delay_run (DelayEffect_new (16106127 / 1073741824) 0.5 0.5 100)
       [OpProcess 1 (- 1), OpProcess 0.5 0.25]) (0.25, 0.75))) = 3
   \<and> dl_delaySamples (delay_run (DelayEffect_new (1 / 128) 0.5 0.5 320) []) = 3
   \<and> dl_delaySamples (delay_run (DelayEffect_new (1 / 128) 0.5 0.5 288) []) = 2"
proof -
  show ?thesis
    using delay_process_step[of "16106127 / 1073741824" "0.5" "0.5" 100
        "[OpProcess 1 (- 1), OpProcess 0.5 0.25]" "0.25" "0.75"]
    unfolding delay_example_run
    by (simp add: Let_def bufferLength_def f32_products c_round_def delay_example_ties)
qed

text \<open>
  Claim C9: after the construction and after each operation of any sequence of
  \<^verbatim>\<open>process\<close>, \<^verbatim>\<open>reset\<close>, \<^verbatim>\<open>setDelayTime\<close>, \<^verbatim>\<open>setFeedback\<close>, \<^verbatim>\<open>setMix\<close> and \<^verbatim>\<open>setSampleRate\<close>,
  the buffer length is at least 2, the write index is below it and the delay in samples
  lies in \<open>[1, length - 1]\<close>. The sequence \<open>ops\<close> is arbitrary, so the statement holds after
  each of its prefixes.
\<close>

theorem delay_invariant:
  "delay_inv (delay_run (DelayEffect_new delayTime feedback mix sampleRate) ops)
   \<and> 2 \<le> bufferLength (delay_run (DelayEffect_new delayTime feedback mix sampleRate) ops)
   \<and> dl_writeIndex (delay_run (DelayEffect_new delayTime feedback mix sampleRate) ops)
       < bufferLength (delay_run (DelayEffect_new delayTime feedback mix sampleRate) ops)
   \<and> 1 \<le> dl_delaySamples (delay_run (DelayEffect_new delayTime feedback mix sampleRate) ops)
   \<and> dl_delaySamples (delay_run (DelayEffect_new delayTime feedback mix sampleRate) ops)
       \<le> bufferLength (delay_run (DelayEffect_new delayTime feedback mix sampleRate) ops) - 1"
proof -
  have "delay_inv (delay_run (DelayEffect_new delayTime feedback mix sampleRate) ops)"
    by (rule delay_run_inv) (rule DelayEffect_new_inv)
  then show ?thesis by (simp add: delay_inv_def)
qed

theorem delay_invariant_witness:
  "delay_inv (delay_run (DelayEffect_new 0.3 0.5 0.5 44100)
     [OpProcess 1 (- 1), OpSetSampleRate 48000, OpSetDelayTime 5, OpReset, OpSetFeedback 2,
      OpSetMix (- 1), OpSetSampleRate 50])"
  using delay_invariant[of "0.3" "0.5" "0.5" 44100
     "[OpProcess 1 (- 1), OpSetSampleRate 48000, OpSetDelayTime 5, OpReset, OpSetFeedback 2,
       OpSetMix (- 1), OpSetSampleRate 50]"]
  by (rule conjunct1)

section \<open>The low-pass effect\<close>

lemma updateCoefficients_pass_through:
  "pass_through (updateCoefficients f) \<longleftrightarrow> lp_sampleRate f * 0.5 \<le> kMinCutoff"
  by (auto simp: updateCoefficients_def pass_through_def Let_def)

lemma updateCoefficients_frame:
  "lp_cutoff (updateCoefficients f) = lp_cutoff f"
  "lp_sampleRate (updateCoefficients f) = lp_sampleRate f"
  by (simp_all add: updateCoefficients_def Let_def)

text \<open>
  Claim C5, as the specification states it: whenever the clamped cutoff is at most the
  20 Hz minimum, the recomputed coefficients are the pass-through ones. At 44100 Hz a
  call \<^verbatim>\<open>setCutoff(20)\<close> stores the minimum and recomputes the coefficients, and they are
  not the pass-through ones: the guard of \<^verbatim>\<open>updateCoefficients\<close> tests the Nyquist
  frequency, not the cutoff.
\<close>

theorem setCutoff_counterexample:
  "lp_cutoff (setCutoff (LowPassEffect_new 1200 44100 0.9 1) 20) = 20
   \<and> lp_cutoff (setCutoff (LowPassEffect_new 1200 44100 0.9 1) 20) \<le> kMinCutoff
   \<and> \<not> pass_through (setCutoff (LowPassEffect_new 1200 44100 0.9 1) 20)"
  by (simp add: LowPassEffect_new_def setCutoff_def Let_def clampValue_def kMinCutoff_def
      kMaxCutoffRatio_def kMinSampleRate_def updateCoefficients_pass_through updateCoefficients_frame)

lemma setCutoff_inv: "lowpass_inv f \<Longrightarrow> lowpass_inv (setCutoff f c)"
  by (auto simp: lowpass_inv_def setCutoff_def Let_def cutoff_in_range_def
      updateCoefficients_frame clampValue_def kMinCutoff_def kMaxCutoffRatio_def kMinSampleRate_def)

lemma LowPassEffect_new_inv: "lowpass_inv (LowPassEffect_new c sr q m)"
  unfolding LowPassEffect_new_def
  by (rule setCutoff_inv)
     (auto simp: lowpass_inv_def cutoff_in_range_def kMinCutoff_def kMaxCutoffRatio_def
       kMinSampleRate_def max_def)

lemma lowpass_setSampleRate_inv: "lowpass_inv f \<Longrightarrow> lowpass_inv (lowpass_setSampleRate f sr)"
  by (auto simp: lowpass_inv_def lowpass_setSampleRate_def Let_def cutoff_in_range_def
      updateCoefficients_frame clampValue_def kMinCutoff_def kMaxCutoffRatio_def kMinSampleRate_def
      max_def)

lemma setResonance_inv: "lowpass_inv f \<Longrightarrow> lowpass_inv (setResonance f q)"
  by (auto simp: lowpass_inv_def setResonance_def Let_def cutoff_in_range_def updateCoefficients_frame)

lemma lowpass_other_inv:
  "lowpass_inv f \<Longrightarrow> lowpass_inv (lowpass_setMix f m)"
  "lowpass_inv f \<Longrightarrow> lowpass_inv (lowpass_reset f)"
  "lowpass_inv f \<Longrightarrow> lowpass_inv (snd (lowpass_process f x))"
  by (simp_all add: lowpass_inv_def cutoff_in_range_def lowpass_setMix_def lowpass_reset_def
      lowpass_process_def lowpass_channel_def Let_def split: prod.splits)

lemma lowpass_apply_inv: "lowpass_inv f \<Longrightarrow> lowpass_inv (lowpass_apply f x)"
  by (cases x) (simp_all add: setCutoff_inv lowpass_setSampleRate_inv setResonance_inv lowpass_other_inv)

lemma lowpass_run_inv: "lowpass_inv f \<Longrightarrow> lowpass_inv (lowpass_run f xs)"
  by (induction xs arbitrary: f) (simp_all add: lowpass_apply_inv)

text \<open>
  Claim C5, amended: after every call to \<^verbatim>\<open>setCutoff\<close> on a low-pass effect (any state
  reached from the constructor through the public operations) the stored cutoff lies in
  \<open>[20, 0.45 * (sample_rate / 2)]\<close>, and the Nyquist frequency of such an effect is above
  the 20 Hz minimum. In any state \<open>g\<close>, the stored cutoff after the call is within 0.001 of
  the clamped argument, and whenever the call changes it (the clamped argument differs from
  the stored cutoff by at least 0.001) it is the clamped argument and the recomputed
  coefficients are the pass-through ones exactly when the Nyquist frequency
  \<open>sample_rate / 2\<close> is at most the 20 Hz minimum.
\<close>

theorem setCutoff_range_and_guard:
  "cutoff_in_range (setCutoff (lowpass_run (LowPassEffect_new cutoff0 sampleRate resonance mix) ops) c)
   \<and> kMinCutoff < lp_sampleRate (lowpass_run (LowPassEffect_new cutoff0 sampleRate resonance mix) ops) * 0.5
   \<and> \<bar>lp_cutoff (setCutoff g c)
        - clampValue c kMinCutoff (max ((lp_sampleRate g * 0.5) * kMaxCutoffRatio) kMinCutoff)\<bar> < 1 / 1000
   \<and> (\<bar>clampValue c kMinCutoff (max ((lp_sampleRate g * 0.5) * kMaxCutoffRatio) kMinCutoff) - lp_cutoff g\<bar> \<ge> 1 / 1000 \<longrightarrow>
        lp_cutoff (setCutoff g c) = clampValue c kMinCutoff (max ((lp_sampleRate g * 0.5) * kMaxCutoffRatio) kMinCutoff)
        \<and> (pass_through (setCutoff g c) \<longleftrightarrow> lp_sampleRate g * 0.5 \<le> kMinCutoff))"
proof -
  let ?f = "lowpass_run (LowPassEffect_new cutoff0 sampleRate resonance mix) ops"
  let ?cl = "clampValue c kMinCutoff (max ((lp_sampleRate g * 0.5) * kMaxCutoffRatio) kMinCutoff)"
  have inv: "lowpass_inv ?f"
    by (intro lowpass_run_inv LowPassEffect_new_inv)
  then have "lowpass_inv (setCutoff ?f c)"
    by (rule setCutoff_inv)
  then have range: "cutoff_in_range (setCutoff ?f c)"
    by (simp add: lowpass_inv_def)
  from inv have nyq: "kMinCutoff < lp_sampleRate ?f * 0.5"
    by (simp add: lowpass_inv_def kMinSampleRate_def kMinCutoff_def)
  have near: "\<bar>lp_cutoff (setCutoff g c) - ?cl\<bar> < 1 / 1000"
    by (simp add: setCutoff_def Let_def updateCoefficients_frame abs_minus_commute)
  have changed: "\<bar>?cl - lp_cutoff g\<bar> \<ge> 1 / 1000 \<longrightarrow>
        lp_cutoff (setCutoff g c) = ?cl
        \<and> (pass_through (setCutoff g c) \<longleftrightarrow> lp_sampleRate g * 0.5 \<le> kMinCutoff)"
    by (simp add: setCutoff_def Let_def updateCoefficients_frame updateCoefficients_pass_through)
  from range nyq near changed show ?thesis by blast
qed

text \<open>
  The witness: at 44100 Hz \<^verbatim>\<open>setCutoff(5)\<close> stores the minimum 20 and the coefficients are
  not the pass-through ones; in a state with a sample rate of 30 Hz (which no constructor
  or setter produces) the same call gives the pass-through coefficients.
\<close>

theorem setCutoff_range_and_guard_witness:
  "cutoff_in_range (setCutoff (lowpass_run (LowPassEffect_new 1200 44100 0.9 1)
       [LpSetResonance 2, LpSetSampleRate 48000, LpProcess 1 (- 1)]) 5)
   \<and> lp_cutoff (setCutoff (LowPassEffect_new 1200 44100 0.9 1) 5) = 20
   \<and> \<not> pass_through (setCutoff (LowPassEffect_new 1200 44100 0.9 1) 5)
   \<and> lp_sampleRate ((LowPassEffect_new 1200 44100 0.9 1)\<lparr> lp_sampleRate := 30 \<rparr>) * 0.5 \<le> kMinCutoff
   \<and> pass_through (setCutoff ((LowPassEffect_new 1200 44100 0.9 1)\<lparr> lp_sampleRate := 30 \<rparr>) 5)"
proof -
  let ?f = "LowPassEffect_new 1200 44100 0.9 1"
  have f: "lp_sampleRate ?f = 44100" "lp_cutoff ?f = 1200"
    by (simp_all add: LowPassEffect_new_def setCutoff_def Let_def clampValue_def kMinCutoff_def
        kMaxCutoffRatio_def kMinSampleRate_def updateCoefficients_frame)
  show ?thesis
    using
      setCutoff_range_and_guard[of 1200 44100 "0.9" 1
        "[LpSetResonance 2, LpSetSampleRate 48000, LpProcess 1 (- 1)]" 5 ?f]
      setCutoff_range_and_guard[of 1200 44100 "0.9" 1 "[]" 5 "?f\<lparr> lp_sampleRate := 30 \<rparr>"]
    by (simp add: f clampValue_def kMinCutoff_def kMaxCutoffRatio_def)
qed

section \<open>The engine\<close>

text \<open>
  Claim C3: for every integer \<open>raw\<close>, \<^verbatim>\<open>set_pitch_bend(raw)\<close> clamps it into
  \<open>[-8192, 8191]\<close> and sets the offset to \<open>raw / 8191 * 100\<close> cents when the clamped value is
  at least 0 and to \<open>raw / 8192 * 100\<close> cents when it is negative; 0 gives 0 cents, 8191
  gives 100 cents and -8192 gives -100 cents. Nothing else of the engine changes.
\<close>

theorem set_pitch_bend_cents:
  "as_pitchBendCents (setPitchBend s raw) =
     (if raw < - 8192 then - 100
      else if raw < 0 then real_of_int raw / 8192 * 100
      else if raw \<le> 8191 then real_of_int raw / 8191 * 100
      else 100)
   \<and> as_pitchBendCents (setPitchBend s 0) = 0
   \<and> as_pitchBendCents (setPitchBend s 8191) = 100
   \<and> as_pitchBendCents (setPitchBend s (- 8192)) = - 100
   \<and> setPitchBend s raw = s\<lparr> as_pitchBendCents := as_pitchBendCents (setPitchBend s raw) \<rparr>"
  by (simp add: setPitchBend_def Let_def max_def min_def)

theorem set_pitch_bend_cents_witness:
  "as_pitchBendCents (setPitchBend (AudioSystem_new 44100) 4096) = 409600 / 8191
   \<and> as_pitchBendCents (setPitchBend (AudioSystem_new 44100) (- 4096)) = - 50
   \<and> as_pitchBendCents (setPitchBend (AudioSystem_new 44100) 20000) = 100
   \<and> as_pitchBendCents (setPitchBend (AudioSystem_new 44100) (- 20000)) = - 100"
  using set_pitch_bend_cents[of "AudioSystem_new 44100" 4096]
    set_pitch_bend_cents[of "AudioSystem_new 44100" "- 4096"]
    set_pitch_bend_cents[of "AudioSystem_new 44100" 20000]
    set_pitch_bend_cents[of "AudioSystem_new 44100" "- 20000"]
  by simp

text \<open>
  Claim C6: with no active note and a frequency \<open>f\<close> in \<open>(0, 20000]\<close>, \<^verbatim>\<open>trigger_note(f)\<close>
  followed by \<^verbatim>\<open>trigger_note_off(f)\<close> leaves the list of active notes empty and
  \<open>note_on\<close> false.
\<close>

theorem trigger_note_then_off:
  assumes "as_activeNotes s = []" "0 < f" "f \<le> 20000"
  shows "as_activeNotes (triggerNoteOff (triggerNote s f detune lfoDraw) (Some f)) = []
       \<and> \<not> as_noteOn (triggerNoteOff (triggerNote s f detune lfoDraw) (Some f))"
  using assms by (simp add: triggerNote_def triggerNoteOff_def Let_def erase_last_match_def)

theorem trigger_note_then_off_witness:
  "as_activeNotes (AudioSystem_new 44100) = [] \<and> (0 :: real) < 440 \<and> (440 :: real) \<le> 20000
   \<and> as_activeNotes (triggerNoteOff (triggerNote (AudioSystem_new 44100) 440 1.5 0.25) (Some 440)) = []
   \<and> \<not> as_noteOn (triggerNoteOff (triggerNote (AudioSystem_new 44100) 440 1.5 0.25) (Some 440))"
proof -
  have e: "as_activeNotes (AudioSystem_new 44100) = []"
    by (simp add: AudioSystem_new_def Let_def)
  show ?thesis
    using e trigger_note_then_off[OF e, of 440 "1.5" "0.25"] by simp
qed

text \<open>
  Claim C7: for every engine state and every frequency \<open>f \<le> 0\<close> or \<open>f > 20000\<close>,
  \<^verbatim>\<open>trigger_note(f)\<close> returns the state it was given: active notes, current frequency,
  \<open>note_on\<close>, phases, detune, envelope and effect chain are all unchanged.
\<close>

theorem trigger_note_invalid_ignored:
  "newFrequency \<le> 0 \<or> newFrequency > 20000 \<Longrightarrow> triggerNote s newFrequency detune lfoDraw = s"
  by (simp add: triggerNote_def)

theorem trigger_note_invalid_ignored_witness:
  "triggerNote (AudioSystem_new 44100) (- 1) 1.5 0.25 = AudioSystem_new 44100
   \<and> triggerNote (AudioSystem_new 44100) 0 1.5 0.25 = AudioSystem_new 44100
   \<and> triggerNote (AudioSystem_new 44100) 20000.5 1.5 0.25 = AudioSystem_new 44100"
  using trigger_note_invalid_ignored[of "- 1" "AudioSystem_new 44100" "1.5" "0.25"]
    trigger_note_invalid_ignored[of 0 "AudioSystem_new 44100" "1.5" "0.25"]
    trigger_note_invalid_ignored[of "20000.5" "AudioSystem_new 44100" "1.5" "0.25"]
  by simp

text \<open>
  Claim C8: for a valid frequency \<open>f\<close> in \<open>(0, 20000]\<close>, \<^verbatim>\<open>trigger_note(f)\<close> on a state with
  active notes leaves the primary phase, the secondary phase, the LFO phase and the
  envelope as they were; on a state without active notes it sets both oscillator phases
  to 0, the LFO phase to the random draw and resets the envelope.
\<close>

theorem trigger_note_legato:
  assumes "0 < f" "f \<le> 20000"
  shows "(as_activeNotes s \<noteq> [] \<longrightarrow>
            as_primaryPhase (triggerNote s f detune lfoDraw) = as_primaryPhase s
          \<and> as_secondaryPhase (triggerNote s f detune lfoDraw) = as_secondaryPhase s
          \<and> as_lfoPhase (triggerNote s f detune lfoDraw) = as_lfoPhase s
          \<and> as_envelope (triggerNote s f detune lfoDraw) = as_envelope s)
       \<and> (as_activeNotes s = [] \<longrightarrow>
            as_primaryPhase (triggerNote s f detune lfoDraw) = 0
          \<and> as_secondaryPhase (triggerNote s f detune lfoDraw) = 0
          \<and> as_lfoPhase (triggerNote s f detune lfoDraw) = lfoDraw
          \<and> as_envelope (triggerNote s f detune lfoDraw) = map_option envelope_reset (as_envelope s))"
  using assms by (simp add: triggerNote_def Let_def)

text \<open>
  The witness holds a first note (which sets the LFO phase to 0.25), moves the phases and
  the envelope as the audio callback would, and triggers a second note.
\<close>

theorem trigger_note_legato_witness:
  "(0 :: real) < 660 \<and> (660 :: real) \<le> 20000
   \<and> as_activeNotes ((triggerNote (AudioSystem_new 44100) 440 1.5 0.25)
        \<lparr> as_primaryPhase := 0.3, as_secondaryPhase := 0.6,
          as_envelope := Some ((ADSREnvelope_new 0.1 0.2 0.7 0.3)\<lparr> env_stage := Sustain, env_level := 0.7 \<rparr>) \<rparr>) \<noteq> []
   \<and> as_primaryPhase (triggerNote ((triggerNote (AudioSystem_new 44100) 440 1.5 0.25)
        \<lparr> as_primaryPhase := 0.3, as_secondaryPhase := 0.6,
          as_envelope := Some ((ADSREnvelope_new 0.1 0.2 0.7 0.3)\<lparr> env_stage := Sustain, env_level := 0.7 \<rparr>) \<rparr>)
        660 (- 2) 0.75) = 0.3
   \<and> as_secondaryPhase (triggerNote ((triggerNote (AudioSystem_new 44100) 440 1.5 0.25)
        \<lparr> as_primaryPhase := 0.3, as_secondaryPhase := 0.6,
          as_envelope := Some ((ADSREnvelope_new 0.1 0.2 0.7 0.3)\<lparr> env_stage := Sustain, env_level := 0.7 \<rparr>) \<rparr>)
        660 (- 2) 0.75) = 0.6
   \<and> as_lfoPhase (triggerNote ((triggerNote (AudioSystem_new 44100) 440 1.5 0.25)
        \<lparr> as_primaryPhase := 0.3, as_secondaryPhase := 0.6,
          as_envelope := Some ((ADSREnvelope_new 0.1 0.2 0.7 0.3)\<lparr> env_stage := Sustain, env_level := 0.7 \<rparr>) \<rparr>)
        660 (- 2) 0.75) = 0.25
   \<and> as_envelope (triggerNote ((triggerNote (AudioSystem_new 44100) 440 1.5 0.25)
        \<lparr> as_primaryPhase := 0.3, as_secondaryPhase := 0.6,
          as_envelope := Some ((ADSREnvelope_new 0.1 0.2 0.7 0.3)\<lparr> env_stage := Sustain, env_level := 0.7 \<rparr>) \<rparr>)
        660 (- 2) 0.75)
       = Some ((ADSREnvelope_new 0.1 0.2 0.7 0.3)\<lparr> env_stage := Sustain, env_level := 0.7 \<rparr>)
   \<and> as_activeNotes (AudioSystem_new 44100) = []
   \<and> as_lfoPhase (triggerNote (AudioSystem_new 44100) 440 1.5 0.25) = 0.25
   \<and> as_primaryPhase (triggerNote (AudioSystem_new 44100) 440 1.5 0.25) = 0"
proof -
  let ?s0 = "AudioSystem_new 44100"
  let ?s1 = "(triggerNote ?s0 440 1.5 0.25)
        \<lparr> as_primaryPhase := 0.3, as_secondaryPhase := 0.6,
          as_envelope := Some ((ADSREnvelope_new 0.1 0.2 0.7 0.3)\<lparr> env_stage := Sustain, env_level := 0.7 \<rparr>) \<rparr>"
  have e: "as_activeNotes ?s0 = []"
    by (simp add: AudioSystem_new_def Let_def)
  have n: "as_activeNotes ?s1 \<noteq> []" "as_lfoPhase ?s1 = 0.25"
    by (simp_all add: triggerNote_def Let_def e)
  show ?thesis
    using e n trigger_note_legato[of 660 ?s1 "- 2" "0.75"] trigger_note_legato[of 440 ?s0 "1.5" "0.25"]
    by simp
qed

text \<open>
  Claim C10: the constructor stores 44100 for every sample rate that is at most 0, and
  stores every positive sample rate unchanged, values below 100 included.
\<close>

theorem constructor_sample_rate:
  "(sampleRate \<le> 0 \<longrightarrow> as_sampleRate (AudioSystem_new sampleRate) = 44100)
   \<and> (0 < sampleRate \<longrightarrow> as_sampleRate (AudioSystem_new sampleRate) = sampleRate)"
  by (simp add: AudioSystem_new_def Let_def)

theorem constructor_sample_rate_witness:
  "as_sampleRate (AudioSystem_new (- 5)) = 44100
   \<and> as_sampleRate (AudioSystem_new 0) = 44100
   \<and> as_sampleRate (AudioSystem_new 50) = 50
   \<and> as_sampleRate (AudioSystem_new 48000) = 48000"
  using constructor_sample_rate[of "- 5"] constructor_sample_rate[of 0]
    constructor_sample_rate[of 50] constructor_sample_rate[of 48000]
  by simp

end
